theory Spec2Isabelle
  imports Main "HOL-Library.Char_ord" "HOL-Library.List_Lexorder"
begin

section \<open>JavaScript values and string helpers\<close>

text \<open>
  The dashboard of \<^verbatim>\<open>src/App.js\<close> reads a workbook, turns every sheet into records and
  filters, groups and exports them. Cell values are strings, numbers or missing
  (\<^verbatim>\<open>undefined\<close>); numeric cells are modelled as integers, whose string form is the plain
  decimal one. Strings are ASCII character lists: \<^verbatim>\<open>toLowerCase\<close> folds \<^verbatim>\<open>A\<close>..\<^verbatim>\<open>Z\<close> and
  white space is the ASCII white space (tab, line feed, vertical tab, form feed, carriage
  return, space). Every place where the JavaScript raises a \<^verbatim>\<open>TypeError\<close> (a method called
  on \<^verbatim>\<open>undefined\<close> or on a number) is a branch \<open>Inl TypeError\<close> of the model.
\<close>

datatype jsval = JStr string | JNum int | JUndef

datatype error = TypeError

definition isWhite :: "char \<Rightarrow> bool" where
  "isWhite c = (c \<in> set [CHR 0x09, CHR 0x0A, CHR 0x0B, CHR 0x0C, CHR 0x0D, CHR 0x20])"

definition isDigit :: "char \<Rightarrow> bool" where
  "isDigit c = (c \<in> set ''0123456789'')"

definition lowerChar :: "char \<Rightarrow> char" where
  "lowerChar c =
     (if CHR ''A'' \<le> c \<and> c \<le> CHR ''Z'' then char_of (of_char c + (32::nat)) else c)"

definition toLowerCase :: "string \<Rightarrow> string" where
  "toLowerCase s = map lowerChar s"

text \<open>\<^verbatim>\<open>String.prototype.trim\<close>: white space is removed at both ends.\<close>

definition str_trim :: "string \<Rightarrow> string" where
  "str_trim s = rev (dropWhile isWhite (rev (dropWhile isWhite s)))"

text \<open>\<^verbatim>\<open>const trim = (v) => (typeof v === "string" ? v.trim() : v)\<close>\<close>

fun trim :: "jsval \<Rightarrow> jsval" where
  "trim (JStr s) = JStr (str_trim s)"
| "trim v = v"

text \<open>
  \<^verbatim>\<open>const norm = (s) => trim(s).toLowerCase()\<close>. On a string it is \<open>norm_str\<close>; on a
  number or on \<^verbatim>\<open>undefined\<close> the call of \<^verbatim>\<open>toLowerCase\<close> raises.
\<close>

definition norm_str :: "string \<Rightarrow> string" where
  "norm_str s = toLowerCase (str_trim s)"

fun norm :: "jsval \<Rightarrow> error + string" where
  "norm (JStr s) = Inr (norm_str s)"
| "norm v = Inl TypeError"

text \<open>
  \<^verbatim>\<open>const hex = (c) => c.startsWith("#") ? c : `#${c}`\<close>. On a string it is
  \<open>hex_str\<close>; a number has no \<^verbatim>\<open>startsWith\<close>.
\<close>

fun startsWith :: "string \<Rightarrow> string \<Rightarrow> bool" where
  "startsWith s [] = True"
| "startsWith [] (q # qs) = False"
| "startsWith (c # s) (q # qs) = (c = q \<and> startsWith s qs)"

definition hex_str :: "string \<Rightarrow> string" where
  "hex_str c = (if startsWith c ''#'' then c else ''#'' @ c)"

fun hex :: "jsval \<Rightarrow> error + string" where
  "hex (JStr c) = Inr (hex_str c)"
| "hex v = Inl TypeError"

text \<open>\<^verbatim>\<open>s.includes(q)\<close>: \<open>q\<close> occurs in \<open>s\<close> as a contiguous piece.\<close>

fun str_includes :: "string \<Rightarrow> string \<Rightarrow> bool" where
  "str_includes [] q = (q = [])"
| "str_includes (c # s) q = (startsWith (c # s) q \<or> str_includes s q)"

text \<open>\<^verbatim>\<open>String(v)\<close>: a number prints in decimal, \<^verbatim>\<open>undefined\<close> prints as its name.\<close>

definition digitChar :: "nat \<Rightarrow> char" where
  "digitChar d = char_of (48 + d)"

fun decimal :: "nat \<Rightarrow> string" where
  "decimal n = (if n < 10 then [digitChar n] else decimal (n div 10) @ [digitChar (n mod 10)])"

declare decimal.simps [simp del]

fun String_of :: "jsval \<Rightarrow> string" where
  "String_of (JStr s) = s"
| "String_of (JNum i) = (if i < 0 then ''-'' @ decimal (nat (- i)) else decimal (nat i))"
| "String_of JUndef = ''undefined''"

text \<open>Truthiness, as \<^verbatim>\<open>if (v)\<close>, \<^verbatim>\<open>!v\<close> and \<^verbatim>\<open>v || d\<close> read it.\<close>

fun truthy :: "jsval \<Rightarrow> bool" where
  "truthy (JStr s) = (s \<noteq> [])"
| "truthy (JNum i) = (i \<noteq> 0)"
| "truthy JUndef = False"

text \<open>\<^verbatim>\<open>s.split(",")\<close>: always at least one part.\<close>

fun split_comma :: "string \<Rightarrow> string list" where
  "split_comma [] = [[]]"
| "split_comma (c # s) =
     (if c = CHR '','' then [] # split_comma s
      else (case split_comma s of p # ps \<Rightarrow> (c # p) # ps | [] \<Rightarrow> [[c]]))"

text \<open>An array read \<^verbatim>\<open>arr[i]\<close>: out of range it is \<^verbatim>\<open>undefined\<close>, here \<open>None\<close>.\<close>

definition arr_get :: "'a list \<Rightarrow> int \<Rightarrow> 'a option" where
  "arr_get xs i = (if 0 \<le> i \<and> i < int (length xs) then Some (xs ! nat i) else None)"

definition cell_get :: "jsval list \<Rightarrow> nat \<Rightarrow> jsval" where
  "cell_get row idx = (case arr_get row (int idx) of None \<Rightarrow> JUndef | Some v \<Rightarrow> v)"

text \<open>
  An object is its list of own properties in insertion order: assigning an existing key
  overwrites in place, a new key is appended; reading a missing key gives
  \<^verbatim>\<open>undefined\<close>. (JavaScript lists keys that are array indices before the others; the
  field names used below are not, and nothing proved here depends on the order.)
\<close>

type_synonym obj = "(string \<times> jsval) list"

fun obj_set :: "string \<Rightarrow> jsval \<Rightarrow> obj \<Rightarrow> obj" where
  "obj_set k v [] = [(k, v)]"
| "obj_set k v (p # ps) = (if fst p = k then (k, v) # ps else p # obj_set k v ps)"

definition obj_get :: "obj \<Rightarrow> string \<Rightarrow> jsval" where
  "obj_get r k = (case map_of r k of None \<Rightarrow> JUndef | Some v \<Rightarrow> v)"

definition obj_values :: "obj \<Rightarrow> jsval list" where
  "obj_values r = map snd r"

section \<open>Sheet normalizer\<close>

text \<open>
  \<^verbatim>\<open>raw.findIndex(p)\<close> is the index of the first element satisfying \<open>p\<close>, or \<open>-1\<close>.
\<close>

fun findIndex :: "('a \<Rightarrow> bool) \<Rightarrow> 'a list \<Rightarrow> int" where
  "findIndex p [] = - 1"
| "findIndex p (x # xs) =
     (if p x then 0 else (let i = findIndex p xs in if i < 0 then - 1 else i + 1))"

definition isHeaderRow :: "jsval list \<Rightarrow> bool" where
  "isHeaderRow r = list_ex (\<lambda>c. str_includes (toLowerCase (String_of c)) ''measure'') r"

definition rowObject :: "jsval list \<Rightarrow> nat \<Rightarrow> jsval list \<Rightarrow> obj" where
  "rowObject headers i row =
     fold (\<lambda>(idx, h) ob. obj_set (String_of h) (trim (cell_get row idx)) ob)
          (enumerate 0 headers) [(''id'', JNum (int i))]"

text \<open>
  \<^verbatim>\<open>sheetToRows\<close>, on the row arrays that \<^verbatim>\<open>sheet_to_json\<close> delivers. With no header row
  \<open>headerIdx\<close> is \<open>-1\<close>, \<^verbatim>\<open>raw[headerIdx]\<close> is \<^verbatim>\<open>undefined\<close> and its \<^verbatim>\<open>.map\<close> raises.
\<close>

definition sheetToRows :: "jsval list list \<Rightarrow> error + obj list" where
  "sheetToRows raw =
     (let headerIdx = findIndex isHeaderRow raw in
      case arr_get raw headerIdx of
        None \<Rightarrow> Inl TypeError
      | Some hdr \<Rightarrow>
          (let headers = map trim hdr;
               dataRows = filter (\<lambda>r. list_ex (\<lambda>c. trim c \<noteq> JStr []) r)
                                 (drop (nat (headerIdx + 1)) raw)
           in Inr (map (\<lambda>(i, row). rowObject headers i row) (enumerate 0 dataRows))))"

section \<open>Config resolver\<close>

text \<open>
  The loop over the rows of the \<^verbatim>\<open>Config\<close> sheet fills two \<^verbatim>\<open>Set\<close>s of names and two
  \<^verbatim>\<open>Map\<close>s from normalized name to colour. A \<^verbatim>\<open>Set\<close> keeps insertion order and ignores
  a value it already holds.
\<close>

record cfgState =
  portSet :: "string list"
  tagSet :: "string list"
  portColourMap :: "string \<rightharpoonup> string"
  tagColourMap :: "string \<rightharpoonup> string"

definition set_add :: "'a \<Rightarrow> 'a list \<Rightarrow> 'a list" where
  "set_add x xs = (if x \<in> set xs then xs else xs @ [x])"

definition cfgInit :: cfgState where
  "cfgInit = \<lparr>portSet = [], tagSet = [], portColourMap = Map.empty, tagColourMap = Map.empty\<rparr>"

text \<open>
  The body of \<^verbatim>\<open>cfgRows.forEach\<close>: column A is the tag name, B the tag colour, C the
  portfolio name, D the portfolio colour; the portfolio block runs first.
\<close>

definition cfgRow :: "jsval list \<Rightarrow> cfgState \<Rightarrow> error + cfgState" where
  "cfgRow r st =
     (let tagName = trim (cell_get r 0);
          tagColourHex = trim (cell_get r 1);
          portfolioName = trim (cell_get r 2);
          portfolioColourHex = trim (cell_get r 3)
      in
      case (if truthy portfolioName then
              (case norm portfolioName of
                 Inl e \<Rightarrow> Inl e
               | Inr key \<Rightarrow>
                   (let st1 = st\<lparr>portSet := set_add (String_of portfolioName) (portSet st)\<rparr> in
                    if truthy portfolioColourHex then
                      (case hex portfolioColourHex of
                         Inl e \<Rightarrow> Inl e
                       | Inr h \<Rightarrow> Inr (st1\<lparr>portColourMap := (portColourMap st1)(key \<mapsto> h)\<rparr>))
                    else Inr st1))
            else Inr st) of
        Inl e \<Rightarrow> Inl e
      | Inr st2 \<Rightarrow>
          (if truthy tagName then
             (case norm tagName of
                Inl e \<Rightarrow> Inl e
              | Inr key \<Rightarrow>
                  (let st3 = st2\<lparr>tagSet := set_add (String_of tagName) (tagSet st2)\<rparr> in
                   if truthy tagColourHex then
                     (case hex tagColourHex of
                        Inl e \<Rightarrow> Inl e
                      | Inr h \<Rightarrow> Inr (st3\<lparr>tagColourMap := (tagColourMap st3)(key \<mapsto> h)\<rparr>))
                   else Inr st3))
           else Inr st2))"

fun cfgRows :: "jsval list list \<Rightarrow> cfgState \<Rightarrow> error + cfgState" where
  "cfgRows [] st = Inr st"
| "cfgRows (r # rs) st = (case cfgRow r st of Inl e \<Rightarrow> Inl e | Inr st' \<Rightarrow> cfgRows rs st')"

record lookups =
  portfolioOptions :: "string list"
  tagOptions :: "string list"
  portfolioColours :: "string \<rightharpoonup> string"
  tagColours :: "string \<rightharpoonup> string"

text \<open>
  \<^verbatim>\<open>const [, ...cfgRows] = cfg\<close> drops the first row; \<^verbatim>\<open>[...portSet].sort()\<close> sorts strings
  by code unit, which is the lexicographic order of character lists.
\<close>

definition resolveConfig :: "jsval list list \<Rightarrow> error + lookups" where
  "resolveConfig cfg =
     (case cfgRows (drop 1 cfg) cfgInit of
        Inl e \<Rightarrow> Inl e
      | Inr st \<Rightarrow>
          Inr \<lparr>portfolioOptions = sort (portSet st), tagOptions = sort (tagSet st),
               portfolioColours = portColourMap st, tagColours = tagColourMap st\<rparr>)"

section \<open>Filter engine\<close>

record filterState =
  portfolios :: "string list"
  tags :: "string list"
  query :: string

text \<open>
  The three checks of the callback of \<^verbatim>\<open>rows.filter\<close> in \<^verbatim>\<open>filtered\<close>, each of them an
  early \<^verbatim>\<open>return false\<close>. The selected names are strings (they come from the option lists
  and from the chips).
\<close>

definition portfolioCheck :: "filterState \<Rightarrow> obj \<Rightarrow> bool" where
  "portfolioCheck fs r =
     (let rowPortfolios = map norm_str (split_comma (String_of (obj_get r ''Portfolio''))) in
      \<not> (portfolios fs \<noteq> [] \<and>
         \<not> list_ex (\<lambda>p. p \<in> set rowPortfolios) (map norm_str (portfolios fs))))"

definition tagCheck :: "filterState \<Rightarrow> obj \<Rightarrow> bool" where
  "tagCheck fs r =
     (let rowTags = map (\<lambda>t. str_trim (toLowerCase t))
                        (split_comma (String_of (obj_get r ''Tags''))) in
      \<not> (tags fs \<noteq> [] \<and>
         \<not> list_ex (\<lambda>t. t \<in> set rowTags) (map toLowerCase (tags fs))))"

definition queryCheck :: "filterState \<Rightarrow> obj \<Rightarrow> bool" where
  "queryCheck fs r =
     (\<not> (query fs \<noteq> [] \<and>
         \<not> list_ex (\<lambda>v. str_includes (toLowerCase (String_of v)) (toLowerCase (query fs)))
                    (obj_values r)))"

definition rowPasses :: "filterState \<Rightarrow> obj \<Rightarrow> bool" where
  "rowPasses fs r =
     (if \<not> portfolioCheck fs r then False
      else if \<not> tagCheck fs r then False
      else if \<not> queryCheck fs r then False
      else True)"

definition filtered :: "filterState \<Rightarrow> obj list \<Rightarrow> obj list" where
  "filtered fs rows = filter (rowPasses fs) rows"

section \<open>Grouping engine\<close>

text \<open>
  The regular expression \<^verbatim>\<open>/^(\d+)\.(\d+)/\<close>: a maximal run of digits at the start, a dot,
  and a maximal run of digits after it, both runs non-empty.
\<close>

definition matchPrefix :: "string \<Rightarrow> (string \<times> string) option" where
  "matchPrefix txt =
     (let m1 = takeWhile isDigit txt in
      if m1 = [] then None
      else (case dropWhile isDigit txt of
              [] \<Rightarrow> None
            | c # rest \<Rightarrow>
                (if c = CHR ''.'' then
                   (let m2 = takeWhile isDigit rest in
                    if m2 = [] then None else Some (m1, m2))
                 else None)))"

text \<open>The bucket of rows with no numeric prefix is the em dash (U+2014), three bytes here.\<close>

definition fallbackKey :: string where
  "fallbackKey = [CHR 0xE2, CHR 0x80, CHR 0x94]"

text \<open>
  The loop over \<^verbatim>\<open>tryFields\<close>. A falsy field is skipped; on any other value
  \<^verbatim>\<open>trim(fld).match\<close> is called, which exists on strings only.
\<close>

fun tryFieldsLoop :: "jsval list \<Rightarrow> error + string" where
  "tryFieldsLoop [] = Inr fallbackKey"
| "tryFieldsLoop (fld # flds) =
     (if \<not> truthy fld then tryFieldsLoop flds
      else (case trim fld of
              JStr txt \<Rightarrow>
                (case matchPrefix txt of
                   Some m \<Rightarrow> Inr (fst m @ ''.'' @ snd m)
                 | None \<Rightarrow> tryFieldsLoop flds)
            | _ \<Rightarrow> Inl TypeError))"

definition groupKey :: "obj \<Rightarrow> error + string" where
  "groupKey r = tryFieldsLoop [obj_get r ''Category'', obj_get r ''Subcategory'', obj_get r ''Measures'']"

text \<open>
  lodash's \<^verbatim>\<open>groupBy\<close>: the result object gets a new key with a one-element array, or the
  element is pushed onto the array of an existing key. The keys contain a dot or are the em
  dash, so the object lists them in insertion order.
\<close>

fun pushTo :: "string \<Rightarrow> 'a \<Rightarrow> (string \<times> 'a list) list \<Rightarrow> (string \<times> 'a list) list" where
  "pushTo k x [] = [(k, [x])]"
| "pushTo k x (b # bs) = (if fst b = k then (k, snd b @ [x]) # bs else b # pushTo k x bs)"

fun groupByLoop :: "('a \<Rightarrow> error + string) \<Rightarrow> 'a list \<Rightarrow> (string \<times> 'a list) list
                     \<Rightarrow> error + (string \<times> 'a list) list" where
  "groupByLoop f [] acc = Inr acc"
| "groupByLoop f (x # xs) acc =
     (case f x of Inl e \<Rightarrow> Inl e | Inr k \<Rightarrow> groupByLoop f xs (pushTo k x acc))"

definition groupBy :: "'a list \<Rightarrow> ('a \<Rightarrow> error + string) \<Rightarrow> error + (string \<times> 'a list) list" where
  "groupBy xs f = groupByLoop f xs []"

definition grouped :: "obj list \<Rightarrow> error + (string \<times> obj list) list" where
  "grouped rows = groupBy rows groupKey"

section \<open>Column deriver and status classes\<close>

text \<open>
  A column descriptor, without its rendering closures. \<open>hasCellClassName\<close> says that the
  column carries the \<^verbatim>\<open>cellClassName\<close> function below. The fields of the first record are
  taken in insertion order.
\<close>

record col =
  field :: string
  headerName :: string
  minWidth :: nat
  flex :: nat
  width :: "nat option"
  align :: "string option"
  headerAlign :: "string option"
  hasCellClassName :: bool

text \<open>\<^verbatim>\<open>/^\d{2}\/\d{2}$/.test(field)\<close>\<close>

definition isStatusField :: "string \<Rightarrow> bool" where
  "isStatusField f =
     (case f of
        [a, b, c, d, e] \<Rightarrow> isDigit a \<and> isDigit b \<and> c = CHR ''/'' \<and> isDigit d \<and> isDigit e
      | _ \<Rightarrow> False)"

definition shownField :: "string \<Rightarrow> bool" where
  "shownField f =
     (f \<notin> set [''id'', ''Category'', ''Materials''] \<and> \<not> str_includes (toLowerCase f) ''update'')"

definition columnFor :: "string \<Rightarrow> col" where
  "columnFor f =
     (let c0 = \<lparr>field = f, headerName = f, minWidth = 140, flex = 1, width = None,
                align = None, headerAlign = None, hasCellClassName = False\<rparr>;
          c1 = (if f = ''Portfolio'' then c0\<lparr>minWidth := 260\<rparr> else c0);
          c2 = (if f = ''Tags'' then c1\<lparr>minWidth := 260\<rparr> else c1);
          c3 = (if f = ''Measures'' then c2\<lparr>headerName := ''Measures'', flex := 2, minWidth := 300\<rparr>
                else c2)
      in if isStatusField f
         then c3\<lparr>width := Some 120, align := Some ''center'', headerAlign := Some ''center'',
                 hasCellClassName := True\<rparr>
         else c3)"

definition columns :: "obj list \<Rightarrow> col list" where
  "columns rows =
     (case rows of [] \<Rightarrow> [] | r # _ \<Rightarrow> map columnFor (filter shownField (map fst r)))"

text \<open>\<^verbatim>\<open>key.replace(/\s+/g, '-')\<close>: every maximal run of white space becomes one hyphen.\<close>

function replace_ws :: "string \<Rightarrow> string" where
  "replace_ws [] = []"
| "replace_ws (c # s) =
     (if isWhite c then CHR ''-'' # replace_ws (dropWhile isWhite s) else c # replace_ws s)"
  by pat_completeness auto
termination
  by (relation "measure length") (auto simp: le_imp_less_Suc length_dropWhile_le)

text \<open>\<^verbatim>\<open>`status-${String(params.value || '').toLowerCase().replace(/\s+/g, '-')}`\<close>\<close>

definition cellClassName :: "jsval \<Rightarrow> string" where
  "cellClassName v =
     ''status-'' @ replace_ws (toLowerCase (String_of (if truthy v then v else JStr [])))"

definition STATUS_BG :: "(string \<times> string) list" where
  "STATUS_BG =
     [(''not started'', ''#e6e6e6''), (''started'', ''#ffd360''), (''maintained'', ''#bfe1f6''),
      (''delayed'', ''#ff9689''), (''on track'', ''#d4edbc''), (''nearly completed'', ''#98d55e''),
      (''abandoned'', ''#3d3d3d''), (''completed'', ''#11734b'')]"

text \<open>
  The style rules of the grid, \<^verbatim>\<open>'& .status-started': { bgcolor: STATUS_BG.started }\<close> and
  so on, in the order of the source: the background of a cell is the rule of its class, if
  there is one.
\<close>

definition statusRules :: "(string \<times> string option) list" where
  "statusRules =
     [(''status-not-started'', map_of STATUS_BG ''not started''),
      (''status-started'', map_of STATUS_BG ''started''),
      (''status-maintained'', map_of STATUS_BG ''maintained''),
      (''status-delayed'', map_of STATUS_BG ''delayed''),
      (''status-nearly-completed'', map_of STATUS_BG ''nearly completed''),
      (''status-abandoned'', map_of STATUS_BG ''abandoned''),
      (''status-completed'', map_of STATUS_BG ''completed''),
      (''status-on-track'', map_of STATUS_BG ''on track'')]"

definition classBg :: "string \<Rightarrow> string option" where
  "classBg cls = (case map_of statusRules cls of None \<Rightarrow> None | Some bg \<Rightarrow> bg)"

definition statusBg :: "string \<Rightarrow> jsval \<Rightarrow> string option" where
  "statusBg f v = (if hasCellClassName (columnFor f) then classBg (cellClassName v) else None)"

section \<open>Export projector\<close>

text \<open>
  \<^verbatim>\<open>filteredRows\<close>: the body of the callback is a comment, so the callback returns
  \<^verbatim>\<open>undefined\<close> for every row.
\<close>

definition filteredRows :: "obj list \<Rightarrow> obj list" where
  "filteredRows rowsArr = filter (\<lambda>r. truthy JUndef) rowsArr"

record exportState =
  tabs :: "string list"
  rowsByTab :: "string \<rightharpoonup> obj list"
  exportColumns :: "col list"

record tableSection =
  heading :: string
  head :: "string list"
  body :: "jsval list list"

record document =
  sections :: "tableSection list"
  savedAs :: string

text \<open>
  One round of \<^verbatim>\<open>tabs.forEach\<close> in \<^verbatim>\<open>handleExport\<close>: \<open>None\<close> is the early return on a tab
  with no rows. Page layout is left out.
\<close>

definition exportTab :: "exportState \<Rightarrow> bool \<Rightarrow> string \<Rightarrow> error + tableSection option" where
  "exportTab st applyFilters tabName =
     (case rowsByTab st tabName of
        None \<Rightarrow> Inl TypeError
      | Some allRows \<Rightarrow>
          (let tableRows = (if applyFilters then filteredRows allRows else allRows) in
           if tableRows = [] then Inr None
           else
             (let tableCols = map (\<lambda>c. (headerName c, field c)) (exportColumns st) in
              Inr (Some \<lparr>heading = tabName, head = map fst tableCols,
                         body = map (\<lambda>r. map (\<lambda>c. obj_get r (snd c)) tableCols) tableRows\<rparr>))))"

fun exportLoop :: "exportState \<Rightarrow> bool \<Rightarrow> string list \<Rightarrow> error + tableSection list" where
  "exportLoop st applyFilters [] = Inr []"
| "exportLoop st applyFilters (t # ts) =
     (case exportTab st applyFilters t of
        Inl e \<Rightarrow> Inl e
      | Inr s \<Rightarrow>
          (case exportLoop st applyFilters ts of
             Inl e \<Rightarrow> Inl e
           | Inr ss \<Rightarrow> Inr ((case s of None \<Rightarrow> [] | Some sec \<Rightarrow> [sec]) @ ss)))"

definition handleExport :: "exportState \<Rightarrow> bool \<Rightarrow> error + document" where
  "handleExport st applyFilters =
     (case exportLoop st applyFilters (tabs st) of
        Inl e \<Rightarrow> Inl e
      | Inr ss \<Rightarrow>
          Inr \<lparr>sections = ss,
               savedAs = (if applyFilters then ''strategy_filtered.pdf'' else ''strategy_all.pdf'')\<rparr>)"

section \<open>The colour shape of the specification\<close>

text \<open>
  The specification's wording of a colour value, \<^verbatim>\<open>#RRGGBB\<close> or \<^verbatim>\<open>#RGB\<close>: a hash sign
  followed by six or by three hexadecimal digits. It is not part of the program; the
  colours the program stores are compared with it below.
\<close>

definition isHexDigit :: "char \<Rightarrow> bool" where
  "isHexDigit c = (c \<in> set ''0123456789abcdefABCDEF'')"

definition spec_hexShaped :: "string \<Rightarrow> bool" where
  "spec_hexShaped s =
     (case s of
        [] \<Rightarrow> False
      | c # ds \<Rightarrow> c = CHR ''#'' \<and> (length ds = 6 \<or> length ds = 3) \<and> list_all isHexDigit ds)"

section \<open>What a config row contributes\<close>

text \<open>
  For the statements about the lookups: the entry a config row adds to a colour map, read
  from the column of the name and the column of the colour. It is there when both cells
  are non-blank strings; its key is the normalized name, its value the \<^verbatim>\<open>hex\<close> of the
  trimmed colour.
\<close>

definition colourEntry :: "nat \<Rightarrow> nat \<Rightarrow> jsval list \<Rightarrow> (string \<times> string) option" where
  "colourEntry nameCol colourCol r =
     (case trim (cell_get r nameCol) of
        JStr s \<Rightarrow>
          (case trim (cell_get r colourCol) of
             JStr c \<Rightarrow> if s \<noteq> [] \<and> c \<noteq> [] then Some (norm_str s, hex_str c) else None
           | _ \<Rightarrow> None)
      | _ \<Rightarrow> None)"

section \<open>Well-formed buckets\<close>

text \<open>
  The shape of what \<^verbatim>\<open>groupBy\<close> builds, used in the proofs about it: the keys are
  distinct, no bucket is empty, and every member of a bucket has the key of the bucket.
\<close>

definition wellGrouped :: "('a \<Rightarrow> error + string) \<Rightarrow> (string \<times> 'a list) list \<Rightarrow> bool" where
  "wellGrouped f bs =
     (distinct (map fst bs) \<and>
      list_all (\<lambda>b. snd b \<noteq> [] \<and> list_all (\<lambda>m. f m = Inr (fst b)) (snd b)) bs)"

section \<open>Sheets without a header row\<close>

lemma findIndex_none: "\<forall>x\<in>set xs. \<not> p x \<Longrightarrow> findIndex p xs = - 1"
  by (induction xs) (simp_all add: Let_def)

lemma sheetToRows_without_header:
  "\<forall>r\<in>set raw. \<not> isHeaderRow r \<Longrightarrow> sheetToRows raw = Inl TypeError"
  by (simp add: sheetToRows_def findIndex_none arr_get_def)

text \<open>
  Claim C1 says that a sheet with no row containing "measure" normalizes to an empty record
  set without an error. The code does not check the \<open>-1\<close> of \<^verbatim>\<open>findIndex\<close>: on the
  two-row sheet below, neither row of which is a header row, \<^verbatim>\<open>sheetToRows\<close> raises a
  \<^verbatim>\<open>TypeError\<close> (and by \<open>sheetToRows_without_header\<close> it does so on every such sheet).
\<close>

theorem sheetToRows_no_header_raises:
  "list_all (\<lambda>r. \<not> isHeaderRow r) [[JStr ''Welcome'', JNum 2024], [JStr ''Read me first'']] \<and>
   sheetToRows [[JStr ''Welcome'', JNum 2024], [JStr ''Read me first'']] = Inl TypeError"
  by code_simp

section \<open>Export with the filters applied\<close>

text \<open>
  Claim C2 says that the export with the apply-filters flag serializes, for every tab, the
  output of the filter engine. \<^verbatim>\<open>filteredRows\<close> is a stub whose callback returns nothing,
  so it keeps no row: with one tab of one record and no filter selected, the filter engine
  keeps the record, the filtered export has no section at all, and the unfiltered export has
  the section of the tab. The two file names differ.
\<close>

theorem export_filtered_is_empty:
  "filtered \<lparr>portfolios = [], tags = [], query = []\<rparr>
       [[(''id'', JNum 0), (''Measures'', JStr ''Build schools'')]]
     = [[(''id'', JNum 0), (''Measures'', JStr ''Build schools'')]] \<and>
   handleExport
       \<lparr>tabs = [''Pillar 1''],
        rowsByTab = [''Pillar 1'' \<mapsto> [[(''id'', JNum 0), (''Measures'', JStr ''Build schools'')]]],
        exportColumns = columns [[(''id'', JNum 0), (''Measures'', JStr ''Build schools'')]]\<rparr>
       True
     = Inr \<lparr>sections = [], savedAs = ''strategy_filtered.pdf''\<rparr> \<and>
   handleExport
       \<lparr>tabs = [''Pillar 1''],
        rowsByTab = [''Pillar 1'' \<mapsto> [[(''id'', JNum 0), (''Measures'', JStr ''Build schools'')]]],
        exportColumns = columns [[(''id'', JNum 0), (''Measures'', JStr ''Build schools'')]]\<rparr>
       False
     = Inr \<lparr>sections = [\<lparr>heading = ''Pillar 1'', head = [''Measures''],
                          body = [[JStr ''Build schools'']]\<rparr>],
            savedAs = ''strategy_all.pdf''\<rparr>"
  by code_simp

section \<open>Numeric field values in the grouping\<close>

text \<open>
  Claim C3 says that filtering, grouping and column derivation never raise on a non-string
  field value. A numeric cell stays a number in the record (\<^verbatim>\<open>trim\<close> returns it as it is);
  the filter coerces it with \<^verbatim>\<open>String\<close>, but the grouping calls \<^verbatim>\<open>match\<close> on it: a record
  whose \<^verbatim>\<open>Category\<close> is the number 3 makes \<^verbatim>\<open>grouped\<close> raise a \<^verbatim>\<open>TypeError\<close>, while the
  filter runs on it.
\<close>

theorem grouping_raises_on_number:
  "sheetToRows [[JStr ''Category'', JStr ''Measures''], [JNum 3, JStr ''Build schools'']]
     = Inr [[(''id'', JNum 0), (''Category'', JNum 3), (''Measures'', JStr ''Build schools'')]] \<and>
   grouped [[(''id'', JNum 0), (''Category'', JNum 3), (''Measures'', JStr ''Build schools'')]]
     = Inl TypeError \<and>
   filtered \<lparr>portfolios = [''Education''], tags = [], query = []\<rparr>
       [[(''id'', JNum 0), (''Category'', JNum 3), (''Measures'', JStr ''Build schools'')]] = []"
  by code_simp

section \<open>The portfolio predicate\<close>



section \<open>Characters by code point\<close>

lemma char_eq_nat: "(c = d) = ((of_char c :: nat) = of_char d)"
  by simp

lemma isWhite_nat: "isWhite c \<longleftrightarrow> (of_char c :: nat) \<in> {9, 10, 11, 12, 13, 32}"
  unfolding isWhite_def by (simp add: char_eq_nat [of c])

lemma isDigit_nat: "isDigit c \<longleftrightarrow> 48 \<le> (of_char c :: nat) \<and> (of_char c :: nat) \<le> 57"
  unfolding isDigit_def by (simp add: char_eq_nat [of c]) arith

lemma of_char_lowerChar:
  "(of_char (lowerChar c) :: nat) =
     (if 65 \<le> (of_char c :: nat) \<and> (of_char c :: nat) \<le> 90 then of_char c + 32 else of_char c)"
  by (simp add: lowerChar_def less_eq_char_def)

lemma isWhite_lowerChar: "isWhite (lowerChar c) = isWhite c"
  by (simp add: isWhite_nat of_char_lowerChar)

lemma lowerChar_digit: "isDigit c \<Longrightarrow> lowerChar c = c"
  by (simp add: isDigit_nat char_eq_nat [of "lowerChar c"] of_char_lowerChar)

lemma isDigit_digitChar: "d < 10 \<Longrightarrow> isDigit (digitChar d)"
  by (simp add: isDigit_nat digitChar_def)

lemma decimal_digits: "list_all isDigit (decimal n)"
proof (induction n rule: decimal.induct)
  case (1 n)
  show ?case
  proof (cases "n < 10")
    case True
    then show ?thesis by (simp add: decimal.simps [of n] isDigit_digitChar)
  next
    case False
    with 1 show ?thesis by (simp add: decimal.simps [of n] isDigit_digitChar)
  qed
qed

lemma toLowerCase_decimal: "toLowerCase (decimal n) = decimal n"
  using decimal_digits [of n]
  by (simp add: toLowerCase_def list_all_iff map_idI lowerChar_digit)

section \<open>The free-text predicate and the record id\<close>

lemma map_of_obj_set: "map_of (obj_set k v ob) k' = (if k' = k then Some v else map_of ob k')"
  by (induction ob) auto

lemma rowObject_fold_id:
  "''id'' \<notin> String_of ` set hs \<Longrightarrow>
   map_of (fold (\<lambda>(idx, h) ob. obj_set (String_of h) (trim (cell_get row idx)) ob)
                (enumerate m hs) ob0) ''id'' = map_of ob0 ''id''"
  by (induction hs arbitrary: m ob0) (simp_all add: map_of_obj_set)

lemma rowObject_id:
  "''id'' \<notin> String_of ` set headers \<Longrightarrow> obj_get (rowObject headers i row) ''id'' = JNum (int i)"
  by (simp add: obj_get_def rowObject_def rowObject_fold_id)

lemma sheetToRows_id:
  assumes "sheetToRows raw = Inr rows"
    and "arr_get raw (findIndex isHeaderRow raw) = Some hdr"
    and "''id'' \<notin> set (map (\<lambda>h. String_of (trim h)) hdr)"
    and "i < length rows"
  shows "obj_get (rows ! i) ''id'' = JNum (int i)"
proof -
  let ?dataRows = "filter (\<lambda>r. list_ex (\<lambda>c. trim c \<noteq> JStr []) r)
                          (drop (nat (findIndex isHeaderRow raw + 1)) raw)"
  from assms(1,2) have rows: "rows = map (\<lambda>(i, row). rowObject (map trim hdr) i row) (enumerate 0 ?dataRows)"
    by (simp add: sheetToRows_def Let_def)
  with assms(4) have len: "i < length ?dataRows" by simp
  from rows len have "rows ! i = rowObject (map trim hdr) i (?dataRows ! i)"
    by (simp add: nth_enumerate_eq)
  moreover from assms(3) have "''id'' \<notin> String_of ` set (map trim hdr)"
    by (simp add: image_image)
  ultimately show ?thesis by (simp add: rowObject_id)
qed

lemma queryCheck_iff:
  "queryCheck fs r \<longleftrightarrow>
     (query fs = [] \<or>
      (\<exists>v \<in> set (obj_values r). str_includes (toLowerCase (String_of v)) (toLowerCase (query fs))))"
  by (auto simp: queryCheck_def list_ex_iff)

lemma obj_get_in_values: "obj_get r k = JNum n \<Longrightarrow> JNum n \<in> set (obj_values r)"
  by (auto simp: obj_get_def obj_values_def split: option.splits dest!: map_of_SomeD intro: rev_image_eqI)

text \<open>
  Claim C10. The query check looks at the string form of every value of the record,
  the \<^verbatim>\<open>id\<close> that \<^verbatim>\<open>sheetToRows\<close> puts into it included: when the query is not empty, the
  record's \<^verbatim>\<open>id\<close> is the number \<open>n\<close> and the lowercased query occurs in the decimal form
  of \<open>n\<close>, the record passes, whatever its other values are. A record of a sheet whose
  header row has no cell named \<^verbatim>\<open>id\<close> carries its position in the sheet as \<^verbatim>\<open>id\<close>.
\<close>

theorem free_text_matches_id:
  "(queryCheck fs r \<longleftrightarrow>
     (query fs = [] \<or>
      (\<exists>v \<in> set (obj_values r). str_includes (toLowerCase (String_of v)) (toLowerCase (query fs))))) \<and>
   (query fs \<noteq> [] \<longrightarrow> obj_get r ''id'' = JNum (int n) \<longrightarrow>
      str_includes (decimal n) (toLowerCase (query fs)) \<longrightarrow> queryCheck fs r) \<and>
   (sheetToRows raw = Inr rows \<longrightarrow> arr_get raw (findIndex isHeaderRow raw) = Some hdr \<longrightarrow>
      ''id'' \<notin> set (map (\<lambda>h. String_of (trim h)) hdr) \<longrightarrow> i < length rows \<longrightarrow>
      obj_get (rows ! i) ''id'' = JNum (int i))"
proof (intro conjI impI)
  show "queryCheck fs r \<longleftrightarrow>
     (query fs = [] \<or>
      (\<exists>v \<in> set (obj_values r). str_includes (toLowerCase (String_of v)) (toLowerCase (query fs))))"
    by (rule queryCheck_iff)
next
  assume id: "obj_get r ''id'' = JNum (int n)"
    and inc: "str_includes (decimal n) (toLowerCase (query fs))"
  from id have "JNum (int n) \<in> set (obj_values r)" by (rule obj_get_in_values)
  moreover have "toLowerCase (String_of (JNum (int n))) = decimal n"
    by (simp add: toLowerCase_decimal)
  ultimately show "queryCheck fs r"
    using inc unfolding queryCheck_iff by metis
next
  assume "sheetToRows raw = Inr rows" "arr_get raw (findIndex isHeaderRow raw) = Some hdr"
    "''id'' \<notin> set (map (\<lambda>h. String_of (trim h)) hdr)" "i < length rows"
  then show "obj_get (rows ! i) ''id'' = JNum (int i)" by (rule sheetToRows_id)
qed

theorem free_text_matches_id_witness:
  "sheetToRows [[JStr ''Measures'', JStr ''Tags''], [JStr ''Build schools'', JStr ''blue'']]
     = Inr [[(''id'', JNum 0), (''Measures'', JStr ''Build schools''), (''Tags'', JStr ''blue'')]] \<and>
   \<not> str_includes (toLowerCase ''Build schools'') (toLowerCase ''0'') \<and>
   \<not> str_includes (toLowerCase ''blue'') (toLowerCase ''0'') \<and>
   queryCheck \<lparr>portfolios = [], tags = [], query = ''0''\<rparr>
      [(''id'', JNum 0), (''Measures'', JStr ''Build schools''), (''Tags'', JStr ''blue'')] \<and>
   filtered \<lparr>portfolios = [], tags = [], query = ''0''\<rparr>
      [[(''id'', JNum 0), (''Measures'', JStr ''Build schools''), (''Tags'', JStr ''blue'')]]
     = [[(''id'', JNum 0), (''Measures'', JStr ''Build schools''), (''Tags'', JStr ''blue'')]]"
proof -
  let ?fs = "\<lparr>portfolios = [], tags = [], query = ''0''\<rparr>"
  let ?r = "[(''id'', JNum 0), (''Measures'', JStr ''Build schools''), (''Tags'', JStr ''blue'')]"
  have q: "query ?fs \<noteq> []" by simp
  have idf: "obj_get ?r ''id'' = JNum (int 0)" by (simp add: obj_get_def)
  have inc: "str_includes (decimal 0) (toLowerCase (query ?fs))" by code_simp
  have pass: "queryCheck ?fs ?r"
    using free_text_matches_id [of ?fs ?r 0] q idf inc by blast
  have sh: "sheetToRows [[JStr ''Measures'', JStr ''Tags''], [JStr ''Build schools'', JStr ''blue'']]
     = Inr [?r]" by code_simp
  have n1: "\<not> str_includes (toLowerCase ''Build schools'') (toLowerCase ''0'')" by code_simp
  have n2: "\<not> str_includes (toLowerCase ''blue'') (toLowerCase ''0'')" by code_simp
  have pc: "portfolioCheck ?fs ?r" by (simp add: portfolioCheck_def)
  have tc: "tagCheck ?fs ?r" by (simp add: tagCheck_def)
  from pass pc tc have "filtered ?fs [?r] = [?r]"
    by (simp add: filtered_def rowPasses_def)
  with sh n1 n2 pass show ?thesis by blast
qed

section \<open>Status colours\<close>

lemma dropWhile_all: "list_all P xs \<Longrightarrow> dropWhile P (xs @ ys) = dropWhile P ys"
  by (induction xs) simp_all

lemma str_trim_padded:
  assumes "s \<noteq> []" "\<not> isWhite (hd s)" "\<not> isWhite (last s)"
    and "list_all isWhite ws1" "list_all isWhite ws2"
  shows "str_trim (ws1 @ s @ ws2) = s"
proof -
  from assms(1,2) have a: "dropWhile isWhite (s @ ws2) = s @ ws2"
    by (cases s) simp_all
  from assms(1,3) have b: "dropWhile isWhite (rev s) = rev s"
    by (cases s rule: rev_cases) simp_all
  from assms(5) have c: "list_all isWhite (rev ws2)" by (simp add: list_all_iff)
  show ?thesis
    unfolding str_trim_def
    by (simp add: dropWhile_all [OF assms(4)] a dropWhile_all [OF c] b)
qed

lemma toLowerCase_padded:
  assumes "toLowerCase s = name" "name \<noteq> []" "\<not> isWhite (hd name)" "\<not> isWhite (last name)"
    and "list_all isWhite ws1" "list_all isWhite ws2"
  shows "str_trim (ws1 @ s @ ws2) = s"
proof -
  from assms(1,2) have ne: "s \<noteq> []" by (auto simp: toLowerCase_def)
  from assms(1) ne have "hd name = lowerChar (hd s)" "last name = lowerChar (last s)"
    by (auto simp: toLowerCase_def hd_map last_map)
  with assms(3,4) have "\<not> isWhite (hd s)" "\<not> isWhite (last s)"
    by (simp_all add: isWhite_lowerChar)
  with ne assms(5,6) show ?thesis by (simp add: str_trim_padded)
qed

lemma statusBg_status_field: "isStatusField f \<Longrightarrow> statusBg f v = classBg (cellClassName v)"
  by (simp add: statusBg_def columnFor_def Let_def)

lemma hyphenated_statuses:
  "map (\<lambda>s. (replace_ws (fst s), snd s)) STATUS_BG =
     [(''not-started'', ''#e6e6e6''), (''started'', ''#ffd360''), (''maintained'', ''#bfe1f6''),
      (''delayed'', ''#ff9689''), (''on-track'', ''#d4edbc''), (''nearly-completed'', ''#98d55e''),
      (''abandoned'', ''#3d3d3d''), (''completed'', ''#11734b'')]"
  by code_simp

lemma classBg_table:
  "classBg (''status-'' @ x) = map_of (map (\<lambda>s. (replace_ws (fst s), snd s)) STATUS_BG) x"
  unfolding hyphenated_statuses
  by (simp add: classBg_def statusRules_def STATUS_BG_def)


lemma classBg_status:
  "classBg (''status-'' @ x) = Some bg \<longleftrightarrow>
     (\<exists>s \<in> set STATUS_BG. x = replace_ws (fst s) \<and> bg = snd s)"
proof -
  have "distinct (map fst (map (\<lambda>s. (replace_ws (fst s), snd s)) STATUS_BG))"
    unfolding hyphenated_statuses by simp
  then have "map_of (map (\<lambda>s. (replace_ws (fst s), snd s)) STATUS_BG) x = Some bg \<longleftrightarrow>
      (x, bg) \<in> set (map (\<lambda>s. (replace_ws (fst s), snd s)) STATUS_BG)"
    by (rule map_of_eq_Some_iff)
  then show ?thesis unfolding classBg_table by auto
qed

lemma status_names_trimmed:
  "s \<in> set STATUS_BG \<Longrightarrow> fst s \<noteq> [] \<and> \<not> isWhite (hd (fst s)) \<and> \<not> isWhite (last (fst s))"
  by (auto simp: STATUS_BG_def isWhite_def)

text \<open>
  Claim C5, amended. On a field named like \<^verbatim>\<open>24/25\<close> a cell gets the colour \<open>bg\<close> exactly
  when its lowercased string form, with every run of white space turned into one hyphen, is
  the hyphenated name of one of the eight statuses of \<^verbatim>\<open>STATUS_BG\<close> and \<open>bg\<close> is the colour
  of that status; every other value gets no colour. In particular a raw cell holding one
  of the eight names in any casing, with any white space around it (which the \<^verbatim>\<open>trim\<close> of
  \<^verbatim>\<open>sheetToRows\<close> removes), gets the colour of that status.
\<close>

theorem status_colour_of_cell:
  assumes "isStatusField f"
  shows "(statusBg f v = Some bg \<longleftrightarrow>
            (\<exists>s \<in> set STATUS_BG.
               replace_ws (toLowerCase (String_of (if truthy v then v else JStr []))) = replace_ws (fst s)
               \<and> bg = snd s)) \<and>
         (\<forall>s \<in> set STATUS_BG. \<forall>raw ws1 ws2.
            toLowerCase raw = fst s \<and> list_all isWhite ws1 \<and> list_all isWhite ws2 \<longrightarrow>
            statusBg f (trim (JStr (ws1 @ raw @ ws2))) = Some (snd s))"
proof -
  have char: "statusBg f w = Some c \<longleftrightarrow>
            (\<exists>s \<in> set STATUS_BG.
               replace_ws (toLowerCase (String_of (if truthy w then w else JStr []))) = replace_ws (fst s)
               \<and> c = snd s)" for w c
    unfolding statusBg_status_field [OF assms] cellClassName_def classBg_status by (rule refl)
  have padded: "statusBg f (trim (JStr (ws1 @ raw @ ws2))) = Some (snd s)"
    if s: "s \<in> set STATUS_BG" and low: "toLowerCase raw = fst s"
      and w1: "list_all isWhite ws1" and w2: "list_all isWhite ws2" for s raw ws1 ws2
  proof -
    from status_names_trimmed [OF s] low w1 w2 have tr: "str_trim (ws1 @ raw @ ws2) = raw"
      by (intro toLowerCase_padded [of raw "fst s"]) simp_all
    from status_names_trimmed [OF s] low have ne: "raw \<noteq> []"
      by (auto simp: toLowerCase_def)
    from s low ne show ?thesis
      unfolding char by (auto simp: tr intro!: bexI [of _ s])
  qed
  from char [of v bg] padded show ?thesis by blast
qed

theorem status_colour_of_cell_witness:
  "isStatusField ''24/25'' \<and>
   statusBg ''24/25'' (trim (JStr (''  '' @ ''On Track'' @ '' ''))) = Some ''#d4edbc'' \<and>
   statusBg ''24/25'' (JStr ''on  track'') = Some ''#d4edbc'' \<and>
   statusBg ''24/25'' (JStr ''finished'') = None"
proof -
  have f: "isStatusField ''24/25''" by code_simp
  have s: "(''on track'', ''#d4edbc'') \<in> set STATUS_BG" by (simp add: STATUS_BG_def)
  have low: "toLowerCase ''On Track'' = fst (''on track'', ''#d4edbc'')" by code_simp
  have w: "list_all isWhite ''  ''" "list_all isWhite '' ''" by (simp_all add: isWhite_def)
  have a: "statusBg ''24/25'' (trim (JStr (''  '' @ ''On Track'' @ '' ''))) = Some ''#d4edbc''"
    using status_colour_of_cell [OF f, of "JStr ''on track''" "''#d4edbc''"] s low w
    by (metis snd_conv)
  have b: "statusBg ''24/25'' (JStr ''on  track'') = Some ''#d4edbc''" by code_simp
  have c: "statusBg ''24/25'' (JStr ''finished'') = None" by code_simp
  from f a b c show ?thesis by blast
qed

text \<open>
  Claim C5 as stated fails: the value \<^verbatim>\<open>on-track\<close> is none of the eight status names, and
  it is given the colour of \<^verbatim>\<open>on track\<close>, because the class name is built by replacing
  white space with hyphens.
\<close>

theorem unrecognised_value_coloured:
  "isStatusField ''24/25'' \<and>
   norm_str ''on-track'' \<notin> set (map fst STATUS_BG) \<and>
   statusBg ''24/25'' (JStr ''on-track'') = Some ''#d4edbc''"
  by code_simp

section \<open>Grouping twice\<close>

lemma pushTo_new: "k \<notin> fst ` set bs \<Longrightarrow> pushTo k x bs = bs @ [(k, [x])]"
  by (induction bs) auto

lemma pushTo_last: "k \<notin> fst ` set bs \<Longrightarrow> pushTo k x (bs @ [(k, ms)]) = bs @ [(k, ms @ [x])]"
  by (induction bs) auto

lemma groupByLoop_append:
  "groupByLoop f (xs @ ys) acc =
     (case groupByLoop f xs acc of Inl e \<Rightarrow> Inl e | Inr acc' \<Rightarrow> groupByLoop f ys acc')"
  by (induction xs arbitrary: acc) (simp_all split: sum.splits)

lemma groupByLoop_same_key:
  "k \<notin> fst ` set bs \<Longrightarrow> list_all (\<lambda>m. f m = Inr k) ms \<Longrightarrow>
   groupByLoop f ms (bs @ [(k, ms0)]) = Inr (bs @ [(k, ms0 @ ms)])"
  by (induction ms arbitrary: ms0) (simp_all add: pushTo_last)

lemma groupByLoop_bucket:
  assumes "k \<notin> fst ` set bs" "ms \<noteq> []" "list_all (\<lambda>m. f m = Inr k) ms"
  shows "groupByLoop f ms bs = Inr (bs @ [(k, ms)])"
proof (cases ms)
  case Nil
  with assms(2) show ?thesis by simp
next
  case (Cons m ms')
  with assms(1,3) show ?thesis
    by (simp add: pushTo_new groupByLoop_same_key)
qed

lemma regroup_buckets:
  "wellGrouped f bs \<Longrightarrow> groupByLoop f (concat (map snd bs)) [] = Inr bs"
proof (induction bs rule: rev_induct)
  case Nil
  show ?case by simp
next
  case (snoc b bs)
  from snoc.prems have wg: "wellGrouped f bs"
    and fresh: "fst b \<notin> fst ` set bs"
    and ne: "snd b \<noteq> []"
    and keys: "list_all (\<lambda>m. f m = Inr (fst b)) (snd b)"
    by (auto simp: wellGrouped_def)
  from snoc.IH [OF wg] have "groupByLoop f (concat (map snd (bs @ [b]))) [] = groupByLoop f (snd b) bs"
    by (simp add: groupByLoop_append)
  also from fresh ne keys have "\<dots> = Inr (bs @ [(fst b, snd b)])"
    by (rule groupByLoop_bucket)
  finally show ?case by simp
qed

lemma pushTo_keys: "fst ` set (pushTo k x bs) = insert k (fst ` set bs)"
  by (induction bs) auto

lemma pushTo_wellGrouped:
  "wellGrouped f bs \<Longrightarrow> f x = Inr k \<Longrightarrow> wellGrouped f (pushTo k x bs)"
proof (induction bs)
  case Nil
  then show ?case by (simp add: wellGrouped_def)
next
  case (Cons b bs)
  from Cons.prems(1) have wg: "wellGrouped f bs" by (simp add: wellGrouped_def)
  show ?case
  proof (cases "fst b = k")
    case True
    with Cons.prems show ?thesis by (simp add: wellGrouped_def)
  next
    case False
    from Cons.IH [OF wg Cons.prems(2)] Cons.prems(1) False show ?thesis
      by (simp add: wellGrouped_def pushTo_keys)
  qed
qed

lemma groupByLoop_wellGrouped:
  "groupByLoop f xs acc = Inr res \<Longrightarrow> wellGrouped f acc \<Longrightarrow> wellGrouped f res"
proof (induction xs arbitrary: acc)
  case Nil
  then show ?case by simp
next
  case (Cons x xs)
  from Cons.prems(1) obtain k where k: "f x = Inr k"
    and rest: "groupByLoop f xs (pushTo k x acc) = Inr res"
    by (auto split: sum.splits)
  from Cons.prems(2) k have "wellGrouped f (pushTo k x acc)" by (rule pushTo_wellGrouped)
  with rest show ?case by (rule Cons.IH)
qed

text \<open>
  Claim C9. Grouping is idempotent: when \<^verbatim>\<open>grouped\<close> returns buckets, grouping the
  concatenation of the buckets, in bucket order, returns the same buckets: the same keys in
  the same order, each with the same members in the same order.
\<close>

theorem grouping_idempotent:
  "grouped rows = Inr bs \<Longrightarrow> grouped (concat (map snd bs)) = Inr bs"
proof -
  assume g: "grouped rows = Inr bs"
  have "wellGrouped groupKey []" by (simp add: wellGrouped_def)
  with g have "wellGrouped groupKey bs"
    unfolding grouped_def groupBy_def by (rule groupByLoop_wellGrouped)
  then show ?thesis
    unfolding grouped_def groupBy_def by (rule regroup_buckets)
qed

theorem grouping_idempotent_witness:
  "grouped [[(''id'', JNum 0), (''Category'', JStr ''3.2 Curriculum Reform'')],
            [(''id'', JNum 1), (''Category'', JStr ''Other'')],
            [(''id'', JNum 2), (''Category'', JStr ''''), (''Measures'', JStr ''3.2.1 Train teachers'')],
            [(''id'', JNum 3), (''Subcategory'', JStr ''10.4 Funding'')]]
     = Inr [(''3.2'', [[(''id'', JNum 0), (''Category'', JStr ''3.2 Curriculum Reform'')],
                       [(''id'', JNum 2), (''Category'', JStr ''''), (''Measures'', JStr ''3.2.1 Train teachers'')]]),
            (fallbackKey, [[(''id'', JNum 1), (''Category'', JStr ''Other'')]]),
            (''10.4'', [[(''id'', JNum 3), (''Subcategory'', JStr ''10.4 Funding'')]])] \<and>
   grouped [[(''id'', JNum 0), (''Category'', JStr ''3.2 Curriculum Reform'')],
            [(''id'', JNum 2), (''Category'', JStr ''''), (''Measures'', JStr ''3.2.1 Train teachers'')],
            [(''id'', JNum 1), (''Category'', JStr ''Other'')],
            [(''id'', JNum 3), (''Subcategory'', JStr ''10.4 Funding'')]]
     = Inr [(''3.2'', [[(''id'', JNum 0), (''Category'', JStr ''3.2 Curriculum Reform'')],
                       [(''id'', JNum 2), (''Category'', JStr ''''), (''Measures'', JStr ''3.2.1 Train teachers'')]]),
            (fallbackKey, [[(''id'', JNum 1), (''Category'', JStr ''Other'')]]),
            (''10.4'', [[(''id'', JNum 3), (''Subcategory'', JStr ''10.4 Funding'')]])]"
proof -
  have g: "grouped [[(''id'', JNum 0), (''Category'', JStr ''3.2 Curriculum Reform'')],
            [(''id'', JNum 1), (''Category'', JStr ''Other'')],
            [(''id'', JNum 2), (''Category'', JStr ''''), (''Measures'', JStr ''3.2.1 Train teachers'')],
            [(''id'', JNum 3), (''Subcategory'', JStr ''10.4 Funding'')]]
     = Inr [(''3.2'', [[(''id'', JNum 0), (''Category'', JStr ''3.2 Curriculum Reform'')],
                       [(''id'', JNum 2), (''Category'', JStr ''''), (''Measures'', JStr ''3.2.1 Train teachers'')]]),
            (fallbackKey, [[(''id'', JNum 1), (''Category'', JStr ''Other'')]]),
            (''10.4'', [[(''id'', JNum 3), (''Subcategory'', JStr ''10.4 Funding'')]])]"
    by code_simp
  from grouping_idempotent [OF g] g show ?thesis by simp
qed

section \<open>One round of the config loop\<close>

text \<open>What a round that does not raise stores, component by component.\<close>

lemma truthy_norm_JStr:
  "truthy v \<Longrightarrow> norm v = Inr key \<Longrightarrow> \<exists>s. v = JStr s \<and> s \<noteq> [] \<and> key = norm_str s"
  by (cases v) auto

lemma cfgRow_portSet:
  "cfgRow r st = Inr st' \<Longrightarrow>
   portSet st' = (case trim (cell_get r 2) of
                    JStr s \<Rightarrow> if s \<noteq> [] then set_add s (portSet st) else portSet st
                  | _ \<Rightarrow> portSet st)"
  by (auto simp: cfgRow_def Let_def split: if_splits sum.splits jsval.splits)

lemma cfgRow_tagSet:
  "cfgRow r st = Inr st' \<Longrightarrow>
   tagSet st' = (case trim (cell_get r 0) of
                    JStr s \<Rightarrow> if s \<noteq> [] then set_add s (tagSet st) else tagSet st
                  | _ \<Rightarrow> tagSet st)"
  by (auto simp: cfgRow_def Let_def split: if_splits sum.splits jsval.splits)

lemma hex_Inr: "hex v = Inr h \<Longrightarrow> \<exists>c. v = JStr c \<and> h = hex_str c"
  by (cases v) auto

lemma norm_Inr: "norm v = Inr k \<Longrightarrow> \<exists>s. v = JStr s \<and> k = norm_str s"
  by (cases v) auto

lemma cfgRow_portColourMap:
  "cfgRow r st = Inr st' \<Longrightarrow>
   portColourMap st' =
     (case (trim (cell_get r 2), trim (cell_get r 3)) of
        (JStr s, JStr c) \<Rightarrow>
          if s \<noteq> [] \<and> c \<noteq> [] then (portColourMap st)(norm_str s \<mapsto> hex_str c)
          else portColourMap st
      | _ \<Rightarrow> portColourMap st)"
  by (auto simp: cfgRow_def Let_def split: if_splits sum.splits jsval.splits dest!: hex_Inr norm_Inr)

lemma cfgRow_tagColourMap:
  "cfgRow r st = Inr st' \<Longrightarrow>
   tagColourMap st' =
     (case (trim (cell_get r 0), trim (cell_get r 1)) of
        (JStr s, JStr c) \<Rightarrow>
          if s \<noteq> [] \<and> c \<noteq> [] then (tagColourMap st)(norm_str s \<mapsto> hex_str c)
          else tagColourMap st
      | _ \<Rightarrow> tagColourMap st)"
  by (auto simp: cfgRow_def Let_def split: if_splits sum.splits jsval.splits dest!: hex_Inr norm_Inr)

section \<open>The option lists\<close>

lemma set_add_set: "set (set_add x xs) = insert x (set xs)"
  by (auto simp: set_add_def)

lemma set_add_distinct: "distinct xs \<Longrightarrow> distinct (set_add x xs)"
  by (simp add: set_add_def)

lemma cfgRows_portSet:
  "cfgRows rs st = Inr st' \<Longrightarrow> distinct (portSet st) \<Longrightarrow>
   distinct (portSet st') \<and>
   set (portSet st') = set (portSet st) \<union> {s. s \<noteq> [] \<and> (\<exists>r \<in> set rs. trim (cell_get r 2) = JStr s)}"
proof (induction rs arbitrary: st)
  case Nil
  then show ?case by simp
next
  case (Cons r rs)
  from Cons.prems(1) obtain st1 where row: "cfgRow r st = Inr st1" and rest: "cfgRows rs st1 = Inr st'"
    by (auto split: sum.splits)
  from cfgRow_portSet [OF row] Cons.prems(2)
  have d1: "distinct (portSet st1)"
    and s1: "set (portSet st1) = set (portSet st) \<union> {s. s \<noteq> [] \<and> trim (cell_get r 2) = JStr s}"
    by (auto simp: set_add_set set_add_distinct split: jsval.splits if_splits)
  from Cons.IH [OF rest d1] s1 show ?case by auto
qed

lemma cfgRows_tagSet:
  "cfgRows rs st = Inr st' \<Longrightarrow> distinct (tagSet st) \<Longrightarrow>
   distinct (tagSet st') \<and>
   set (tagSet st') = set (tagSet st) \<union> {s. s \<noteq> [] \<and> (\<exists>r \<in> set rs. trim (cell_get r 0) = JStr s)}"
proof (induction rs arbitrary: st)
  case Nil
  then show ?case by simp
next
  case (Cons r rs)
  from Cons.prems(1) obtain st1 where row: "cfgRow r st = Inr st1" and rest: "cfgRows rs st1 = Inr st'"
    by (auto split: sum.splits)
  from cfgRow_tagSet [OF row] Cons.prems(2)
  have d1: "distinct (tagSet st1)"
    and s1: "set (tagSet st1) = set (tagSet st) \<union> {s. s \<noteq> [] \<and> trim (cell_get r 0) = JStr s}"
    by (auto simp: set_add_set set_add_distinct split: jsval.splits if_splits)
  from Cons.IH [OF rest d1] s1 show ?case by auto
qed

text \<open>
  Claim C4, amended. After a config resolution that does not raise, each of the two option
  lists is sorted in the lexicographic order of the strings as they are, has no string
  twice, and holds exactly the non-empty trimmed names of its column in the rows after the
  first: two names are one entry only when they are the same string.
\<close>

theorem option_lists_sorted_distinct:
  assumes "resolveConfig cfg = Inr l"
  shows "sorted (portfolioOptions l) \<and> distinct (portfolioOptions l) \<and>
         set (portfolioOptions l) =
           {s. s \<noteq> [] \<and> (\<exists>r \<in> set (drop 1 cfg). trim (cell_get r 2) = JStr s)} \<and>
         sorted (tagOptions l) \<and> distinct (tagOptions l) \<and>
         set (tagOptions l) =
           {s. s \<noteq> [] \<and> (\<exists>r \<in> set (drop 1 cfg). trim (cell_get r 0) = JStr s)}"
proof -
  from assms obtain st where run: "cfgRows (drop 1 cfg) cfgInit = Inr st"
    and l: "l = \<lparr>portfolioOptions = sort (portSet st), tagOptions = sort (tagSet st),
                 portfolioColours = portColourMap st, tagColours = tagColourMap st\<rparr>"
    by (auto simp: resolveConfig_def split: sum.splits)
  have "distinct (portSet cfgInit)" "distinct (tagSet cfgInit)" by (simp_all add: cfgInit_def)
  with cfgRows_portSet [OF run] cfgRows_tagSet [OF run]
  have "distinct (portSet st)" "distinct (tagSet st)"
    "set (portSet st) = {s. s \<noteq> [] \<and> (\<exists>r \<in> set (drop 1 cfg). trim (cell_get r 2) = JStr s)}"
    "set (tagSet st) = {s. s \<noteq> [] \<and> (\<exists>r \<in> set (drop 1 cfg). trim (cell_get r 0) = JStr s)}"
    by (simp_all add: cfgInit_def)
  with l show ?thesis by simp
qed

section \<open>The colours of the lookups\<close>

lemma startsWith_hex_str: "startsWith (hex_str c) ''#''"
  by (simp add: hex_str_def)

lemma cfgRows_portColourMap:
  "cfgRows rs st = Inr st' \<Longrightarrow> portColourMap st' k = Some v \<Longrightarrow>
   portColourMap st k = Some v \<or>
   (\<exists>r \<in> set rs. \<exists>s c. trim (cell_get r 2) = JStr s \<and> s \<noteq> [] \<and> k = norm_str s \<and>
                         trim (cell_get r 3) = JStr c \<and> c \<noteq> [] \<and> v = hex_str c)"
proof (induction rs arbitrary: st)
  case Nil
  then show ?case by simp
next
  case (Cons r rs)
  from Cons.prems(1) obtain st1 where row: "cfgRow r st = Inr st1" and rest: "cfgRows rs st1 = Inr st'"
    by (auto split: sum.splits)
  from Cons.IH [OF rest Cons.prems(2)] show ?case
  proof
    assume "portColourMap st1 k = Some v"
    with cfgRow_portColourMap [OF row] show ?thesis
      by (auto split: jsval.splits if_splits)
  next
    assume "\<exists>r \<in> set rs. \<exists>s c. trim (cell_get r 2) = JStr s \<and> s \<noteq> [] \<and> k = norm_str s \<and>
                         trim (cell_get r 3) = JStr c \<and> c \<noteq> [] \<and> v = hex_str c"
    then show ?thesis by auto
  qed
qed

lemma cfgRows_tagColourMap:
  "cfgRows rs st = Inr st' \<Longrightarrow> tagColourMap st' k = Some v \<Longrightarrow>
   tagColourMap st k = Some v \<or>
   (\<exists>r \<in> set rs. \<exists>s c. trim (cell_get r 0) = JStr s \<and> s \<noteq> [] \<and> k = norm_str s \<and>
                         trim (cell_get r 1) = JStr c \<and> c \<noteq> [] \<and> v = hex_str c)"
proof (induction rs arbitrary: st)
  case Nil
  then show ?case by simp
next
  case (Cons r rs)
  from Cons.prems(1) obtain st1 where row: "cfgRow r st = Inr st1" and rest: "cfgRows rs st1 = Inr st'"
    by (auto split: sum.splits)
  from Cons.IH [OF rest Cons.prems(2)] show ?case
  proof
    assume "tagColourMap st1 k = Some v"
    with cfgRow_tagColourMap [OF row] show ?thesis
      by (auto split: jsval.splits if_splits)
  next
    assume "\<exists>r \<in> set rs. \<exists>s c. trim (cell_get r 0) = JStr s \<and> s \<noteq> [] \<and> k = norm_str s \<and>
                         trim (cell_get r 1) = JStr c \<and> c \<noteq> [] \<and> v = hex_str c"
    then show ?thesis by auto
  qed
qed

text \<open>
  Claim C8, amended. After a config resolution that does not raise, every colour stored in
  either lookup starts with a hash sign, and it is the \<^verbatim>\<open>hex\<close> of the non-empty trimmed colour
  cell of a row (after the first) whose non-empty trimmed name normalizes to the key: a
  blank colour cell stores nothing.
\<close>

theorem stored_colours_prefixed:
  assumes "resolveConfig cfg = Inr l"
  shows "(\<forall>k v. portfolioColours l k = Some v \<longrightarrow>
            startsWith v ''#'' \<and>
            (\<exists>r \<in> set (drop 1 cfg). \<exists>s c.
               trim (cell_get r 2) = JStr s \<and> s \<noteq> [] \<and> k = norm_str s \<and>
               trim (cell_get r 3) = JStr c \<and> c \<noteq> [] \<and> v = hex_str c)) \<and>
         (\<forall>k v. tagColours l k = Some v \<longrightarrow>
            startsWith v ''#'' \<and>
            (\<exists>r \<in> set (drop 1 cfg). \<exists>s c.
               trim (cell_get r 0) = JStr s \<and> s \<noteq> [] \<and> k = norm_str s \<and>
               trim (cell_get r 1) = JStr c \<and> c \<noteq> [] \<and> v = hex_str c))"
proof -
  from assms obtain st where run: "cfgRows (drop 1 cfg) cfgInit = Inr st"
    and l: "portfolioColours l = portColourMap st" "tagColours l = tagColourMap st"
    by (auto simp: resolveConfig_def split: sum.splits)
  have p: "startsWith v ''#'' \<and>
            (\<exists>r \<in> set (drop 1 cfg). \<exists>s c.
               trim (cell_get r 2) = JStr s \<and> s \<noteq> [] \<and> k = norm_str s \<and>
               trim (cell_get r 3) = JStr c \<and> c \<noteq> [] \<and> v = hex_str c)"
    if "portfolioColours l k = Some v" for k v
    using cfgRows_portColourMap [OF run, of k v] that l
    by (auto simp: cfgInit_def startsWith_hex_str)
  have t: "startsWith v ''#'' \<and>
            (\<exists>r \<in> set (drop 1 cfg). \<exists>s c.
               trim (cell_get r 0) = JStr s \<and> s \<noteq> [] \<and> k = norm_str s \<and>
               trim (cell_get r 1) = JStr c \<and> c \<noteq> [] \<and> v = hex_str c)"
    if "tagColours l k = Some v" for k v
    using cfgRows_tagColourMap [OF run, of k v] that l
    by (auto simp: cfgInit_def startsWith_hex_str)
  from p t show ?thesis by blast
qed

section \<open>What the config rows record\<close>

lemma str_trim_idem: "str_trim (str_trim s) = str_trim s"
proof -
  define t where "t = dropWhile isWhite s"
  define u where "u = rev (dropWhile isWhite (rev t))"
  have tu: "t = u @ rev (takeWhile isWhite (rev t))"
  proof -
    have "rev (takeWhile isWhite (rev t) @ dropWhile isWhite (rev t)) = rev (rev t)"
      by (simp only: takeWhile_dropWhile_id)
    then have "rev (dropWhile isWhite (rev t)) @ rev (takeWhile isWhite (rev t)) = t"
      by (simp only: rev_append rev_rev_ident)
    then show ?thesis by (simp only: u_def)
  qed
  have su: "str_trim s = u" by (simp add: str_trim_def t_def u_def)
  have empty: "str_trim [] = []" by (simp add: str_trim_def)
  show ?thesis
  proof (cases "u = []")
    case True
    with su empty show ?thesis by simp
  next
    case False
    then have "dropWhile isWhite (rev t) \<noteq> []" by (simp add: u_def)
    then have "\<not> isWhite (hd (dropWhile isWhite (rev t)))" by (rule hd_dropWhile)
    with False have last_u: "\<not> isWhite (last u)" by (simp add: u_def last_rev)
    from False tu have tne: "t \<noteq> []" by auto
    then have "\<not> isWhite (hd t)" unfolding t_def by (rule hd_dropWhile)
    moreover from False tu have "hd t = hd u" by (metis hd_append2)
    ultimately have hd_u: "\<not> isWhite (hd u)" by simp
    from False hd_u have a: "dropWhile isWhite u = u" by (cases u) simp_all
    from False last_u have b: "dropWhile isWhite (rev u) = rev u"
      by (cases u rule: rev_cases) simp_all
    have "str_trim u = u" by (simp add: str_trim_def a b)
    with su show ?thesis by simp
  qed
qed

lemma norm_str_trim: "norm_str (str_trim s) = norm_str s"
  by (simp add: norm_str_def str_trim_idem)

lemma cfgRow_strings:
  "cfgRow [JStr a, JStr b, JStr c, JStr d] st =
     Inr (st\<lparr>portSet := (if str_trim c \<noteq> [] then set_add (str_trim c) (portSet st) else portSet st),
             portColourMap := (if str_trim c \<noteq> [] \<and> str_trim d \<noteq> []
                               then (portColourMap st)(norm_str c \<mapsto> hex_str (str_trim d))
                               else portColourMap st),
             tagSet := (if str_trim a \<noteq> [] then set_add (str_trim a) (tagSet st) else tagSet st),
             tagColourMap := (if str_trim a \<noteq> [] \<and> str_trim b \<noteq> []
                              then (tagColourMap st)(norm_str a \<mapsto> hex_str (str_trim b))
                              else tagColourMap st)\<rparr>)"
  by (simp add: cfgRow_def cell_get_def arr_get_def Let_def norm_str_trim)

lemma resolveConfig_skips_first: "resolveConfig (first # rows) = resolveConfig (other # rows)"
  by (simp add: resolveConfig_def)

lemma cfgRows_strings:
  "cfgRows (map (\<lambda>(a, b, c, d). [JStr a, JStr b, JStr c, JStr d]) rs) st =
     Inr (st\<lparr>portSet :=
               fold set_add (map (\<lambda>(a, b, c, d). str_trim c)
                                 (filter (\<lambda>(a, b, c, d). str_trim c \<noteq> []) rs)) (portSet st),
             portColourMap :=
               portColourMap st ++
               map_of (rev (map (\<lambda>(a, b, c, d). (norm_str c, hex_str (str_trim d)))
                                (filter (\<lambda>(a, b, c, d). str_trim c \<noteq> [] \<and> str_trim d \<noteq> []) rs))),
             tagSet :=
               fold set_add (map (\<lambda>(a, b, c, d). str_trim a)
                                 (filter (\<lambda>(a, b, c, d). str_trim a \<noteq> []) rs)) (tagSet st),
             tagColourMap :=
               tagColourMap st ++
               map_of (rev (map (\<lambda>(a, b, c, d). (norm_str a, hex_str (str_trim b)))
                                (filter (\<lambda>(a, b, c, d). str_trim a \<noteq> [] \<and> str_trim b \<noteq> []) rs)))\<rparr>)"
proof (induction rs arbitrary: st)
  case Nil
  show ?case by simp
next
  case (Cons r rs)
  obtain a b c d where r: "r = (a, b, c, d)" by (cases r) auto
  show ?case
    unfolding r by (simp add: cfgRow_strings Cons.IH)
qed

lemma cfgRow_tag_entry:
  "cfgRow r st = Inr st' \<Longrightarrow>
   tagColourMap st' =
     (case colourEntry 0 1 r of None \<Rightarrow> tagColourMap st
      | Some e \<Rightarrow> (tagColourMap st)(fst e \<mapsto> snd e))"
  by (drule cfgRow_tagColourMap) (simp add: colourEntry_def split: jsval.splits)

lemma cfgRow_port_entry:
  "cfgRow r st = Inr st' \<Longrightarrow>
   portColourMap st' =
     (case colourEntry 2 3 r of None \<Rightarrow> portColourMap st
      | Some e \<Rightarrow> (portColourMap st)(fst e \<mapsto> snd e))"
  by (drule cfgRow_portColourMap) (simp add: colourEntry_def split: jsval.splits)

lemma cfgRows_tag_entries:
  "cfgRows rs st = Inr st' \<Longrightarrow>
   tagColourMap st' = tagColourMap st ++ map_of (rev (List.map_filter (colourEntry 0 1) rs))"
proof (induction rs arbitrary: st)
  case Nil
  then show ?case by (simp add: map_filter_simps)
next
  case (Cons r rs)
  from Cons.prems obtain st1 where row: "cfgRow r st = Inr st1" and rest: "cfgRows rs st1 = Inr st'"
    by (auto split: sum.splits)
  from Cons.IH [OF rest] cfgRow_tag_entry [OF row] show ?case
    by (simp add: map_filter_simps split: option.splits)
qed

lemma cfgRows_port_entries:
  "cfgRows rs st = Inr st' \<Longrightarrow>
   portColourMap st' = portColourMap st ++ map_of (rev (List.map_filter (colourEntry 2 3) rs))"
proof (induction rs arbitrary: st)
  case Nil
  then show ?case by (simp add: map_filter_simps)
next
  case (Cons r rs)
  from Cons.prems obtain st1 where row: "cfgRow r st = Inr st1" and rest: "cfgRows rs st1 = Inr st'"
    by (auto split: sum.splits)
  from Cons.IH [OF rest] cfgRow_port_entry [OF row] show ?case
    by (simp add: map_filter_simps split: option.splits)
qed

lemma resolveConfig_entries:
  assumes "resolveConfig cfg = Inr l"
  shows "tagColours l = map_of (rev (List.map_filter (colourEntry 0 1) (drop 1 cfg)))"
    and "portfolioColours l = map_of (rev (List.map_filter (colourEntry 2 3) (drop 1 cfg)))"
proof -
  from assms obtain st where run: "cfgRows (drop 1 cfg) cfgInit = Inr st"
    and l: "portfolioColours l = portColourMap st" "tagColours l = tagColourMap st"
    by (auto simp: resolveConfig_def split: sum.splits)
  from cfgRows_tag_entries [OF run] l
  show "tagColours l = map_of (rev (List.map_filter (colourEntry 0 1) (drop 1 cfg)))"
    by (simp add: cfgInit_def)
  from cfgRows_port_entries [OF run] l
  show "portfolioColours l = map_of (rev (List.map_filter (colourEntry 2 3) (drop 1 cfg)))"
    by (simp add: cfgInit_def)
qed

lemma strings_resolve:
  "\<exists>l. resolveConfig (first # map (\<lambda>(a, b, c, d). [JStr a, JStr b, JStr c, JStr d]) rs) = Inr l"
  by (simp add: resolveConfig_def cfgRows_strings)

text \<open>
  A config sheet with the same names in two casings and a colour that is a word: it is
  the input of the closed statements below.
\<close>

lemma sample_config:
  "resolveConfig [[JStr ''Tag'', JStr ''Tag colour'', JStr ''Portfolio'', JStr ''Portfolio colour''],
                  [JStr ''Blue'', JStr ''E3F2FD'', JStr ''Education'', JStr ''003399''],
                  [JStr ''blue '', JStr [], JStr ''education'', JStr []],
                  [JStr [], JStr [], JStr ''Arts'', JStr ''red'']]
     = Inr \<lparr>portfolioOptions = [''Arts'', ''Education'', ''education''],
            tagOptions = [''Blue'', ''blue''],
            portfolioColours = [''education'' \<mapsto> ''#003399'', ''arts'' \<mapsto> ''#red''],
            tagColours = [''blue'' \<mapsto> ''#E3F2FD'']\<rparr>"
proof -
  have t: "str_trim ''Education'' = ''Education''" "str_trim ''Blue'' = ''Blue''"
     "str_trim ''E3F2FD'' = ''E3F2FD''" "str_trim ''003399'' = ''003399''"
     "str_trim ''blue '' = ''blue''" "str_trim ''education'' = ''education''"
     "str_trim ''Arts'' = ''Arts''" "str_trim ''red'' = ''red''" "str_trim [] = []"
    by code_simp+
  have n: "norm_str ''Education'' = ''education''" "norm_str ''Blue'' = ''blue''"
     "norm_str ''blue '' = ''blue''" "norm_str ''education'' = ''education''"
     "norm_str ''Arts'' = ''arts''"
    by code_simp+
  have h: "hex_str ''E3F2FD'' = ''#E3F2FD''" "hex_str ''003399'' = ''#003399''"
     "hex_str ''red'' = ''#red''"
    by code_simp+
  have s: "sort [''Education'', ''education'', ''Arts''] = [''Arts'', ''Education'', ''education'']"
     "sort [''Blue'', ''blue''] = [''Blue'', ''blue'']"
    by code_simp+
  show ?thesis
    using s
    by (simp add: resolveConfig_def cfgRow_strings cfgInit_def set_add_def t n h del: sort_key_simps)
qed

text \<open>
  What the resolver records when it returns. The first row of the config sheet is dropped
  whatever it holds. Whenever the resolution returns, the tag lookup is the list of the
  entries of the rows after the first, read from columns A (name) and B (colour), and the
  portfolio lookup the same from columns C and D, a later row overriding an earlier one
  with the same key. On rows of string cells the resolution always returns, with the sorted
  sets of the non-blank trimmed names as option lists.
\<close>

lemma config_rows_recorded:
  "resolveConfig (first # rows) = resolveConfig (other # rows) \<and>
   (resolveConfig cfg = Inr l \<longrightarrow>
      tagColours l = map_of (rev (List.map_filter (colourEntry 0 1) (drop 1 cfg))) \<and>
      portfolioColours l = map_of (rev (List.map_filter (colourEntry 2 3) (drop 1 cfg)))) \<and>
   colourEntry 0 1 [JStr a, JStr b, JStr c, JStr d] =
     (if str_trim a \<noteq> [] \<and> str_trim b \<noteq> [] then Some (norm_str a, hex_str (str_trim b)) else None) \<and>
   colourEntry 2 3 [JStr a, JStr b, JStr c, JStr d] =
     (if str_trim c \<noteq> [] \<and> str_trim d \<noteq> [] then Some (norm_str c, hex_str (str_trim d)) else None) \<and>
   resolveConfig (first # map (\<lambda>(a, b, c, d). [JStr a, JStr b, JStr c, JStr d]) rs) =
     Inr \<lparr>portfolioOptions =
            sort (fold set_add (map (\<lambda>(a, b, c, d). str_trim c)
                                    (filter (\<lambda>(a, b, c, d). str_trim c \<noteq> []) rs)) []),
          tagOptions =
            sort (fold set_add (map (\<lambda>(a, b, c, d). str_trim a)
                                    (filter (\<lambda>(a, b, c, d). str_trim a \<noteq> []) rs)) []),
          portfolioColours =
            map_of (rev (map (\<lambda>(a, b, c, d). (norm_str c, hex_str (str_trim d)))
                             (filter (\<lambda>(a, b, c, d). str_trim c \<noteq> [] \<and> str_trim d \<noteq> []) rs))),
          tagColours =
            map_of (rev (map (\<lambda>(a, b, c, d). (norm_str a, hex_str (str_trim b)))
                             (filter (\<lambda>(a, b, c, d). str_trim a \<noteq> [] \<and> str_trim b \<noteq> []) rs)))\<rparr> \<and>
   resolveConfig [first, [JStr ''Blue'', JStr ''E3F2FD'', JStr ''Education'', JStr ''003399'']] =
     Inr \<lparr>portfolioOptions = [''Education''], tagOptions = [''Blue''],
          portfolioColours = [''education'' \<mapsto> ''#003399''],
          tagColours = [''blue'' \<mapsto> ''#E3F2FD'']\<rparr>"
proof (intro conjI impI)
  show "resolveConfig (first # rows) = resolveConfig (other # rows)"
    by (rule resolveConfig_skips_first)
next
  assume "resolveConfig cfg = Inr l"
  then show "tagColours l = map_of (rev (List.map_filter (colourEntry 0 1) (drop 1 cfg)))"
    by (rule resolveConfig_entries)
next
  assume "resolveConfig cfg = Inr l"
  then show "portfolioColours l = map_of (rev (List.map_filter (colourEntry 2 3) (drop 1 cfg)))"
    by (rule resolveConfig_entries)
next
  show "colourEntry 0 1 [JStr a, JStr b, JStr c, JStr d] =
     (if str_trim a \<noteq> [] \<and> str_trim b \<noteq> [] then Some (norm_str a, hex_str (str_trim b)) else None)"
    by (simp add: colourEntry_def cell_get_def arr_get_def norm_str_trim)
next
  show "colourEntry 2 3 [JStr a, JStr b, JStr c, JStr d] =
     (if str_trim c \<noteq> [] \<and> str_trim d \<noteq> [] then Some (norm_str c, hex_str (str_trim d)) else None)"
    by (simp add: colourEntry_def cell_get_def arr_get_def norm_str_trim)
next
  show "resolveConfig (first # map (\<lambda>(a, b, c, d). [JStr a, JStr b, JStr c, JStr d]) rs) =
     Inr \<lparr>portfolioOptions =
            sort (fold set_add (map (\<lambda>(a, b, c, d). str_trim c)
                                    (filter (\<lambda>(a, b, c, d). str_trim c \<noteq> []) rs)) []),
          tagOptions =
            sort (fold set_add (map (\<lambda>(a, b, c, d). str_trim a)
                                    (filter (\<lambda>(a, b, c, d). str_trim a \<noteq> []) rs)) []),
          portfolioColours =
            map_of (rev (map (\<lambda>(a, b, c, d). (norm_str c, hex_str (str_trim d)))
                             (filter (\<lambda>(a, b, c, d). str_trim c \<noteq> [] \<and> str_trim d \<noteq> []) rs))),
          tagColours =
            map_of (rev (map (\<lambda>(a, b, c, d). (norm_str a, hex_str (str_trim b)))
                             (filter (\<lambda>(a, b, c, d). str_trim a \<noteq> [] \<and> str_trim b \<noteq> []) rs)))\<rparr>"
    by (simp add: resolveConfig_def cfgRows_strings cfgInit_def)
next
  have t: "str_trim ''Education'' = ''Education''" "str_trim ''Blue'' = ''Blue''"
     "str_trim ''E3F2FD'' = ''E3F2FD''" "str_trim ''003399'' = ''003399''"
    by code_simp+
  have n: "norm_str ''Education'' = ''education''" "norm_str ''Blue'' = ''blue''"
    by code_simp+
  have h: "hex_str ''E3F2FD'' = ''#E3F2FD''" "hex_str ''003399'' = ''#003399''"
    by code_simp+
  show "resolveConfig [first, [JStr ''Blue'', JStr ''E3F2FD'', JStr ''Education'', JStr ''003399'']] =
     Inr \<lparr>portfolioOptions = [''Education''], tagOptions = [''Blue''],
          portfolioColours = [''education'' \<mapsto> ''#003399''],
          tagColours = [''blue'' \<mapsto> ''#E3F2FD'']\<rparr>"
    by (simp add: resolveConfig_def cfgRow_strings cfgInit_def set_add_def t n h)
qed

lemma config_rows_recorded_at_sample:
  "resolveConfig [[JStr ''Tag'', JStr ''Tag colour'', JStr ''Portfolio'', JStr ''Portfolio colour''],
                  [JStr ''Blue'', JStr ''E3F2FD'', JStr ''Education'', JStr ''003399'']] =
     Inr \<lparr>portfolioOptions = [''Education''], tagOptions = [''Blue''],
          portfolioColours = [''education'' \<mapsto> ''#003399''],
          tagColours = [''blue'' \<mapsto> ''#E3F2FD'']\<rparr> \<and>
   [''blue'' \<mapsto> ''#E3F2FD''] =
     map_of (rev (List.map_filter (colourEntry 0 1)
       (drop 1 [[JStr ''Tag'', JStr ''Tag colour'', JStr ''Portfolio'', JStr ''Portfolio colour''],
                [JStr ''Blue'', JStr ''E3F2FD'', JStr ''Education'', JStr ''003399'']]))) \<and>
   [''education'' \<mapsto> ''#003399''] =
     map_of (rev (List.map_filter (colourEntry 2 3)
       (drop 1 [[JStr ''Tag'', JStr ''Tag colour'', JStr ''Portfolio'', JStr ''Portfolio colour''],
                [JStr ''Blue'', JStr ''E3F2FD'', JStr ''Education'', JStr ''003399'']])))"
proof -
  let ?cfg = "[[JStr ''Tag'', JStr ''Tag colour'', JStr ''Portfolio'', JStr ''Portfolio colour''],
               [JStr ''Blue'', JStr ''E3F2FD'', JStr ''Education'', JStr ''003399'']]"
  let ?l = "\<lparr>portfolioOptions = [''Education''], tagOptions = [''Blue''],
          portfolioColours = [''education'' \<mapsto> ''#003399''],
          tagColours = [''blue'' \<mapsto> ''#E3F2FD'']\<rparr>"
  note inst = config_rows_recorded
    [of "[JStr ''Tag'', JStr ''Tag colour'', JStr ''Portfolio'', JStr ''Portfolio colour'']"
        "[]" "[]" ?cfg ?l "[]" "[]" "[]" "[]" "[]"]
  from inst have run: "resolveConfig ?cfg = Inr ?l" by blast
  from inst run have "tagColours ?l = map_of (rev (List.map_filter (colourEntry 0 1) (drop 1 ?cfg)))"
    and "portfolioColours ?l = map_of (rev (List.map_filter (colourEntry 2 3) (drop 1 ?cfg)))"
    by blast+
  with run show ?thesis by simp
qed

text \<open>
  Claim C6 says that every row after the first has its non-blank tag name recorded with the
  \<^verbatim>\<open>hex\<close> of its non-blank colour, and the same for the portfolio. On string cells this is
  so: the row \<^verbatim>\<open>("Blue", "E3F2FD", "Education", "003399")\<close> gives
  \<^verbatim>\<open>tagColours["blue"] = "#E3F2FD"\<close> and \<^verbatim>\<open>portfolioColours["education"] = "#003399"\<close>.
  A colour cell that the sheet holds as a number is left a number by \<^verbatim>\<open>trim\<close>, and
  \<^verbatim>\<open>hex\<close> calls \<^verbatim>\<open>startsWith\<close> on it: with the row \<^verbatim>\<open>("Grey", 808080, "", "")\<close> added, the
  resolution raises a \<^verbatim>\<open>TypeError\<close> and records nothing, not even the row before it.
\<close>

theorem config_numeric_colour_raises:
  "resolveConfig [[JStr ''Tag'', JStr ''Tag colour'', JStr ''Portfolio'', JStr ''Portfolio colour''],
                  [JStr ''Blue'', JStr ''E3F2FD'', JStr ''Education'', JStr ''003399'']] =
     Inr \<lparr>portfolioOptions = [''Education''], tagOptions = [''Blue''],
          portfolioColours = [''education'' \<mapsto> ''#003399''],
          tagColours = [''blue'' \<mapsto> ''#E3F2FD'']\<rparr> \<and>
   trim (JNum 808080) = JNum 808080 \<and> truthy (JNum 808080) \<and> hex (JNum 808080) = Inl TypeError \<and>
   resolveConfig [[JStr ''Tag'', JStr ''Tag colour'', JStr ''Portfolio'', JStr ''Portfolio colour''],
                  [JStr ''Blue'', JStr ''E3F2FD'', JStr ''Education'', JStr ''003399''],
                  [JStr ''Grey'', JNum 808080, JStr [], JStr []]] =
     Inl TypeError"
proof -
  have t: "str_trim ''Education'' = ''Education''" "str_trim ''Blue'' = ''Blue''"
     "str_trim ''E3F2FD'' = ''E3F2FD''" "str_trim ''003399'' = ''003399''"
     "str_trim ''Grey'' = ''Grey''" "str_trim [] = []"
    by code_simp+
  have n: "norm_str ''Education'' = ''education''" "norm_str ''Blue'' = ''blue''"
    by code_simp+
  have h: "hex_str ''E3F2FD'' = ''#E3F2FD''" "hex_str ''003399'' = ''#003399''"
    by code_simp+
  have ok: "resolveConfig [[JStr ''Tag'', JStr ''Tag colour'', JStr ''Portfolio'', JStr ''Portfolio colour''],
                  [JStr ''Blue'', JStr ''E3F2FD'', JStr ''Education'', JStr ''003399'']] =
     Inr \<lparr>portfolioOptions = [''Education''], tagOptions = [''Blue''],
          portfolioColours = [''education'' \<mapsto> ''#003399''],
          tagColours = [''blue'' \<mapsto> ''#E3F2FD'']\<rparr>"
    by (simp add: resolveConfig_def cfgRow_strings cfgInit_def set_add_def t n h)
  have raises: "resolveConfig [[JStr ''Tag'', JStr ''Tag colour'', JStr ''Portfolio'', JStr ''Portfolio colour''],
                  [JStr ''Blue'', JStr ''E3F2FD'', JStr ''Education'', JStr ''003399''],
                  [JStr ''Grey'', JNum 808080, JStr [], JStr []]] =
     Inl TypeError"
    by (simp add: resolveConfig_def cfgRow_strings cfgRow_def cell_get_def arr_get_def Let_def t)
  from ok raises show ?thesis by simp
qed

theorem option_lists_sorted_distinct_witness:
  "resolveConfig [[JStr ''Tag'', JStr ''Tag colour'', JStr ''Portfolio'', JStr ''Portfolio colour''],
                  [JStr ''Blue'', JStr ''E3F2FD'', JStr ''Education'', JStr ''003399''],
                  [JStr ''blue '', JStr [], JStr ''education'', JStr []],
                  [JStr [], JStr [], JStr ''Arts'', JStr ''red'']]
     = Inr \<lparr>portfolioOptions = [''Arts'', ''Education'', ''education''],
            tagOptions = [''Blue'', ''blue''],
            portfolioColours = [''education'' \<mapsto> ''#003399'', ''arts'' \<mapsto> ''#red''],
            tagColours = [''blue'' \<mapsto> ''#E3F2FD'']\<rparr> \<and>
   sorted [''Arts'', ''Education'', ''education''] \<and> distinct [''Arts'', ''Education'', ''education''] \<and>
   sorted [''Blue'', ''blue''] \<and> distinct [''Blue'', ''blue'']"
  using option_lists_sorted_distinct [OF sample_config] sample_config by simp

text \<open>
  Claim C4 as stated fails: \<^verbatim>\<open>Education\<close> and \<^verbatim>\<open>education\<close> have the same normalized key
  and are both in the portfolio option list, as \<^verbatim>\<open>Blue\<close> and \<^verbatim>\<open>blue\<close> are in the tag
  option list; the \<^verbatim>\<open>Set\<close>s hold the names as written.
\<close>

theorem option_lists_keep_both_casings:
  "resolveConfig [[JStr ''Tag'', JStr ''Tag colour'', JStr ''Portfolio'', JStr ''Portfolio colour''],
                  [JStr ''Blue'', JStr ''E3F2FD'', JStr ''Education'', JStr ''003399''],
                  [JStr ''blue '', JStr [], JStr ''education'', JStr []],
                  [JStr [], JStr [], JStr ''Arts'', JStr ''red'']]
     = Inr \<lparr>portfolioOptions = [''Arts'', ''Education'', ''education''],
            tagOptions = [''Blue'', ''blue''],
            portfolioColours = [''education'' \<mapsto> ''#003399'', ''arts'' \<mapsto> ''#red''],
            tagColours = [''blue'' \<mapsto> ''#E3F2FD'']\<rparr> \<and>
   norm_str ''Education'' = norm_str ''education'' \<and> ''Education'' \<noteq> ''education'' \<and>
   norm_str ''Blue'' = norm_str ''blue'' \<and> ''Blue'' \<noteq> ''blue''"
proof -
  have "norm_str ''Education'' = norm_str ''education''" "norm_str ''Blue'' = norm_str ''blue''"
    by code_simp+
  with sample_config show ?thesis by simp
qed

theorem stored_colours_prefixed_witness:
  "resolveConfig [[JStr ''Tag'', JStr ''Tag colour'', JStr ''Portfolio'', JStr ''Portfolio colour''],
                  [JStr ''Blue'', JStr ''E3F2FD'', JStr ''Education'', JStr ''003399''],
                  [JStr ''blue '', JStr [], JStr ''education'', JStr []],
                  [JStr [], JStr [], JStr ''Arts'', JStr ''red'']]
     = Inr \<lparr>portfolioOptions = [''Arts'', ''Education'', ''education''],
            tagOptions = [''Blue'', ''blue''],
            portfolioColours = [''education'' \<mapsto> ''#003399'', ''arts'' \<mapsto> ''#red''],
            tagColours = [''blue'' \<mapsto> ''#E3F2FD'']\<rparr> \<and>
   startsWith ''#red'' ''#'' \<and> startsWith ''#E3F2FD'' ''#''"
proof -
  let ?l = "\<lparr>portfolioOptions = [''Arts'', ''Education'', ''education''],
            tagOptions = [''Blue'', ''blue''],
            portfolioColours = [''education'' \<mapsto> ''#003399'', ''arts'' \<mapsto> ''#red''],
            tagColours = [''blue'' \<mapsto> ''#E3F2FD'']\<rparr>"
  have p: "portfolioColours ?l ''arts'' = Some ''#red''" by simp
  have t: "tagColours ?l ''blue'' = Some ''#E3F2FD''" by simp
  from stored_colours_prefixed [OF sample_config] p t
  have "startsWith ''#red'' ''#'' \<and> startsWith ''#E3F2FD'' ''#''" by blast
  with sample_config show ?thesis by blast
qed

text \<open>
  Claim C8 as stated fails: the colour cell \<^verbatim>\<open>red\<close> is stored as \<^verbatim>\<open>#red\<close>, which is not a
  hash sign followed by three or six hexadecimal digits.
\<close>

theorem stored_colour_not_hex:
  "resolveConfig [[JStr ''Tag'', JStr ''Tag colour'', JStr ''Portfolio'', JStr ''Portfolio colour''],
                  [JStr ''Blue'', JStr ''E3F2FD'', JStr ''Education'', JStr ''003399''],
                  [JStr ''blue '', JStr [], JStr ''education'', JStr []],
                  [JStr [], JStr [], JStr ''Arts'', JStr ''red'']]
     = Inr \<lparr>portfolioOptions = [''Arts'', ''Education'', ''education''],
            tagOptions = [''Blue'', ''blue''],
            portfolioColours = [''education'' \<mapsto> ''#003399'', ''arts'' \<mapsto> ''#red''],
            tagColours = [''blue'' \<mapsto> ''#E3F2FD'']\<rparr> \<and>
   \<not> spec_hexShaped ''#red''"
proof -
  have "\<not> spec_hexShaped ''#red''" by code_simp
  with sample_config show ?thesis by simp
qed

end
